theory Spec2Isabelle
  imports Main
begin

section \<open>JavaScript values\<close>

text \<open>
  The proxy (server/index.js) and the React view (client/src/App.jsx) exchange JSON.
  A JavaScript value is modelled by the datatype below. Numbers are restricted to
  integers (the values whose decimal printing is the plain digit string); strings are
  lists of 8-bit characters. An object is its list of own properties, looked up by the
  first entry of a key.
\<close>

datatype jsval =
    JUndefined
  | JNull
  | JBool bool
  | JNum int
  | JStr string
  | JArr "jsval list"
  | JObj "(string \<times> jsval) list"

text \<open>ToBoolean: \<open>undefined\<close>, \<open>null\<close>, \<open>false\<close>, \<open>0\<close> and \<open>''\<close> are falsy.\<close>

fun truthy :: "jsval \<Rightarrow> bool" where
  "truthy JUndefined = False"
| "truthy JNull = False"
| "truthy (JBool b) = b"
| "truthy (JNum n) = (n \<noteq> 0)"
| "truthy (JStr s) = (s \<noteq> [])"
| "truthy (JArr xs) = True"
| "truthy (JObj fs) = True"

fun nullish :: "jsval \<Rightarrow> bool" where
  "nullish JUndefined = True"
| "nullish JNull = True"
| "nullish v = False"

text \<open>
  \<open>v.k\<close> for a value that is neither \<open>null\<close> nor \<open>undefined\<close>, and for the property
  names this program reads (none of them is defined on a prototype): an own property
  of an object, \<open>undefined\<close> otherwise.
\<close>

fun getProp :: "jsval \<Rightarrow> string \<Rightarrow> jsval" where
  "getProp (JObj fs) k = (case map_of fs k of None \<Rightarrow> JUndefined | Some v \<Rightarrow> v)"
| "getProp v k = JUndefined"

text \<open>\<open>v?.k\<close> and \<open>a ?? b\<close> and \<open>a || b\<close>.\<close>

definition optChain :: "jsval \<Rightarrow> string \<Rightarrow> jsval" where
  "optChain v k = (if nullish v then JUndefined else getProp v k)"

definition nullishOr :: "jsval \<Rightarrow> jsval \<Rightarrow> jsval" where
  "nullishOr a b = (if nullish a then b else a)"

definition jsOr :: "jsval \<Rightarrow> jsval \<Rightarrow> jsval" where
  "jsOr a b = (if truthy a then a else b)"

section \<open>The proxy: server/index.js\<close>

subsection \<open>Requests, responses, the remote client\<close>

datatype http_method = GET | HEAD | POST | PUT | DELETE | PATCH | OPTIONS

text \<open>
  A request as a route handler sees it: \<open>req.query\<close> is always an object (the parsed
  query string), \<open>req.body\<close> is what the JSON body parser left there.
\<close>

record request =
  "method" :: http_method
  path :: string
  query :: "(string \<times> jsval) list"
  body :: jsval

text \<open>
  The response object: \<open>res.status(n)\<close> sets the status code (200 at first),
  \<open>res.json(b)\<close> sends \<open>b\<close> with the current code. \<open>sent\<close> lists what was sent.
\<close>

record res_state =
  statusCode :: nat
  sent :: "(nat \<times> jsval) list"

definition res0 :: res_state where
  "res0 = \<lparr>statusCode = 200, sent = []\<rparr>"

definition status :: "nat \<Rightarrow> res_state \<Rightarrow> res_state" where
  "status n res = res\<lparr>statusCode := n\<rparr>"

definition json :: "jsval \<Rightarrow> res_state \<Rightarrow> res_state" where
  "json b res = res\<lparr>sent := sent res @ [(statusCode res, b)]\<rparr>"

text \<open>The argument of \<open>client.tool.invoke\<close>; the \<open>server\<close> entry is the same constant in both calls.\<close>

record tool_call =
  toolName :: string
  arguments :: "(string \<times> jsval) list"

text \<open>
  What lies outside this repository is a parameter. For the remote client:
  \<open>connect p\<close> is the reason with which the \<open>p\<close>-th promise made by \<open>createMcpClient\<close>
  rejects (\<open>None\<close> when it resolves to a client), and \<open>invoke n c\<close> is the outcome of the
  call \<open>c\<close> made after \<open>n\<close> earlier ones: \<open>Inl\<close> the thrown value, \<open>Inr\<close> the result.
  For the engine: \<open>destructureError\<close> is the message of the TypeError raised when
  \<open>undefined\<close> or \<open>null\<close> is destructured.
\<close>

record environment =
  connect :: "nat \<Rightarrow> jsval option"
  invoke :: "nat \<Rightarrow> tool_call \<Rightarrow> jsval + jsval"
  destructureError :: string

text \<open>
  The module state: \<open>mcpClientPromise\<close> (\<open>None\<close> is \<open>null\<close>; a promise is named by the
  number of promises made before it), with three observers that the code does not
  have: how often \<open>createMcpClient\<close> was called, the calls made through
  \<open>client.tool.invoke\<close>, and what \<open>console.error\<close> printed.
\<close>

record server_state =
  mcpClientPromise :: "nat option"
  created :: nat
  invocations :: "tool_call list"
  errlog :: "(string \<times> jsval) list"

definition server_init :: server_state where
  "server_init = \<lparr>mcpClientPromise = None, created = 0, invocations = [], errlog = []\<rparr>"

definition getMcpClient :: "server_state \<Rightarrow> nat \<times> server_state" where
  "getMcpClient st =
     (case mcpClientPromise st of
        None \<Rightarrow> (created st, st\<lparr>mcpClientPromise := Some (created st), created := Suc (created st)\<rparr>)
      | Some p \<Rightarrow> (p, st))"

text \<open>\<open>await p\<close>: throws the rejection reason, or gives the client.\<close>

definition await_client :: "environment \<Rightarrow> nat \<Rightarrow> jsval + nat" where
  "await_client env p = (case connect env p of Some e \<Rightarrow> Inl e | None \<Rightarrow> Inr p)"

text \<open>\<open>await client.tool.invoke(c)\<close>, recorded in \<open>invocations\<close>.\<close>

definition tool_invoke :: "environment \<Rightarrow> tool_call \<Rightarrow> server_state \<Rightarrow> (jsval + jsval) \<times> server_state" where
  "tool_invoke env c st =
     (invoke env (length (invocations st)) c, st\<lparr>invocations := invocations st @ [c]\<rparr>)"

subsection \<open>The two route handlers\<close>

text \<open>
  The body of a \<open>try\<close> block gives \<open>Inl\<close> the thrown value or \<open>Inr ()\<close>, with the
  response object and the module state as they are at that point.
\<close>

definition okBody :: "jsval \<Rightarrow> jsval" where
  "okBody result = JObj [(''ok'', JBool True), (''data'', nullishOr (optChain result ''content'') (JArr []))]"

definition errBody :: "jsval \<Rightarrow> jsval" where
  "errBody err = JObj [(''ok'', JBool False), (''error'', jsOr (optChain err ''message'') (JStr ''unknown error''))]"

definition call_tool ::
  "environment \<Rightarrow> tool_call \<Rightarrow> res_state \<Rightarrow> server_state \<Rightarrow> (jsval + unit) \<times> res_state \<times> server_state" where
  "call_tool env c res st =
     (case getMcpClient st of (p, st1) \<Rightarrow>
        (case await_client env p of
           Inl e \<Rightarrow> (Inl e, res, st1)
         | Inr client \<Rightarrow>
             (case tool_invoke env c st1 of
                (Inl e, st2) \<Rightarrow> (Inl e, res, st2)
              | (Inr result, st2) \<Rightarrow> (Inr (), json (okBody result) res, st2))))"

definition structure_try ::
  "environment \<Rightarrow> request \<Rightarrow> res_state \<Rightarrow> server_state \<Rightarrow> (jsval + unit) \<times> res_state \<times> server_state" where
  "structure_try env req res st =
     (let owner = getProp (JObj (query req)) ''owner'';
          repo = getProp (JObj (query req)) ''repo''
      in if \<not> truthy owner \<or> \<not> truthy repo
         then (Inr (), json (JObj [(''error'', JStr ''owner and repo are required'')]) (status 400 res), st)
         else call_tool env
                \<lparr>toolName = ''read_wiki_structure'', arguments = [(''owner'', owner), (''repo'', repo)]\<rparr>
                res st)"

text \<open>
  \<open>const { owner, repo, question } = req.body\<close> throws a TypeError when \<open>req.body\<close> is
  \<open>undefined\<close> or \<open>null\<close>.
\<close>

definition ask_try ::
  "environment \<Rightarrow> request \<Rightarrow> res_state \<Rightarrow> server_state \<Rightarrow> (jsval + unit) \<times> res_state \<times> server_state" where
  "ask_try env req res st =
     (if nullish (body req) then (Inl (JObj [(''message'', JStr (destructureError env))]), res, st)
      else
        let owner = getProp (body req) ''owner'';
            repo = getProp (body req) ''repo'';
            question = getProp (body req) ''question''
        in if \<not> truthy owner \<or> \<not> truthy repo \<or> \<not> truthy question
           then (Inr (), json (JObj [(''error'', JStr ''owner, repo, question are required'')]) (status 400 res), st)
           else call_tool env
                  \<lparr>toolName = ''ask_question'',
                   arguments = [(''owner'', owner), (''repo'', repo), (''question'', question)]\<rparr>
                  res st)"

text \<open>The \<open>catch\<close> clause shared by both handlers, up to the label it logs.\<close>

definition catch_clause ::
  "string \<Rightarrow> (jsval + unit) \<times> res_state \<times> server_state \<Rightarrow> res_state \<times> server_state" where
  "catch_clause label r =
     (case r of
        (Inl err, res, st) \<Rightarrow>
          (json (errBody err) (status 500 res), st\<lparr>errlog := errlog st @ [(label, err)]\<rparr>)
      | (Inr u, res, st) \<Rightarrow> (res, st))"

definition structure_handler :: "environment \<Rightarrow> request \<Rightarrow> server_state \<Rightarrow> res_state \<times> server_state" where
  "structure_handler env req st = catch_clause ''structure error'' (structure_try env req res0 st)"

definition ask_handler :: "environment \<Rightarrow> request \<Rightarrow> server_state \<Rightarrow> res_state \<times> server_state" where
  "ask_handler env req st = catch_clause ''ask error'' (ask_try env req res0 st)"

subsection \<open>Routing\<close>

text \<open>
  \<open>app.get(p, h)\<close> and \<open>app.post(p, h)\<close> with the framework's default matching: the path
  is compared without regard to letter case and with one optional trailing slash, and a
  GET route also serves HEAD. The application registers two routes. A request that
  matches neither is not answered by any code of this repository (\<open>None\<close>).
\<close>

definition lower_char :: "char \<Rightarrow> char" where
  "lower_char c =
     (case map_of (zip ''ABCDEFGHIJKLMNOPQRSTUVWXYZ'' ''abcdefghijklmnopqrstuvwxyz'') c of
        None \<Rightarrow> c
      | Some d \<Rightarrow> d)"

definition path_matches :: "string \<Rightarrow> string \<Rightarrow> bool" where
  "path_matches route p = (let q = map lower_char p in q = route \<or> q = route @ ''/'')"

datatype route = Structure | Ask

definition dispatch :: "request \<Rightarrow> route option" where
  "dispatch req =
     (if (method req = GET \<or> method req = HEAD) \<and> path_matches ''/api/structure'' (path req)
      then Some Structure
      else if method req = POST \<and> path_matches ''/api/ask'' (path req)
      then Some Ask
      else None)"

definition app ::
  "environment \<Rightarrow> request \<Rightarrow> server_state \<Rightarrow> res_state option \<times> server_state" where
  "app env req st =
     (case dispatch req of
        None \<Rightarrow> (None, st)
      | Some Structure \<Rightarrow> (case structure_handler env req st of (res, st') \<Rightarrow> (Some res, st'))
      | Some Ask \<Rightarrow> (case ask_handler env req st of (res, st') \<Rightarrow> (Some res, st')))"

text \<open>Requests served one after the other, each handler running to its end before the next.\<close>

fun run :: "environment \<Rightarrow> request list \<Rightarrow> server_state \<Rightarrow> server_state" where
  "run env [] st = st"
| "run env (req # reqs) st = run env reqs (snd (app env req st))"

section \<open>The view: client/src/App.jsx\<close>

subsection \<open>Strings\<close>

text \<open>
  \<open>String.prototype.trim\<close> removes white space and line terminators at both ends;
  these are the ones among the 8-bit characters.
\<close>

definition is_space :: "char \<Rightarrow> bool" where
  "is_space c = (c \<in> set [CHR 0x09, CHR 0x0A, CHR 0x0B, CHR 0x0C, CHR 0x0D, CHR 0x20, CHR 0xA0])"

definition trim :: "string \<Rightarrow> string" where
  "trim s = rev (dropWhile is_space (rev (dropWhile is_space s)))"

fun nat_dec :: "nat \<Rightarrow> string" where
  "nat_dec n =
     (if n < 10 then [''0123456789'' ! n]
      else nat_dec (n div 10) @ [''0123456789'' ! (n mod 10)])"

definition int_dec :: "int \<Rightarrow> string" where
  "int_dec i = (if i < 0 then ''-'' @ nat_dec (nat (- i)) else nat_dec (nat i))"

fun join :: "string \<Rightarrow> string list \<Rightarrow> string" where
  "join sep [] = []"
| "join sep [x] = x"
| "join sep (x # y # ys) = x @ sep @ join sep (y # ys)"

text \<open>
  ToString; inside an array, \<open>undefined\<close> and \<open>null\<close> print as the empty string. An
  object prints as a plain object does (one that carries a property of its own named
  \<open>toString\<close> or \<open>valueOf\<close> is not told apart).
\<close>

fun toStr :: "jsval \<Rightarrow> string" where
  "toStr JUndefined = ''undefined''"
| "toStr JNull = ''null''"
| "toStr (JBool b) = (if b then ''true'' else ''false'')"
| "toStr (JNum n) = int_dec n"
| "toStr (JStr s) = s"
| "toStr (JArr xs) = join '','' (map (\<lambda>x. if nullish x then [] else toStr x) xs)"
| "toStr (JObj fs) = ''[object Object]''"

text \<open>\<open>xs.join(sep)\<close>.\<close>

definition array_join :: "string \<Rightarrow> jsval list \<Rightarrow> string" where
  "array_join sep xs = join sep (map (\<lambda>x. if nullish x then [] else toStr x) xs)"

subsection \<open>Component state\<close>

record ui_state =
  owner :: string
  repo :: string
  "structure" :: "jsval list"
  selectedTopic :: jsval
  doc :: string
  question :: string
  answer :: string
  loading :: bool
  error :: string

definition ui_init :: ui_state where
  "ui_init =
     \<lparr>owner = ''facebook'', repo = ''react'', structure = [], selectedTopic = JStr [], doc = [],
      question = ''How does concurrent rendering work?'', answer = [], loading = False, error = []\<rparr>"

text \<open>\<open>owner.trim() && repo.trim()\<close>: the left operand when it is empty, the right one otherwise.\<close>

definition canQuery :: "ui_state \<Rightarrow> string" where
  "canQuery st = (if trim (owner st) = [] then trim (owner st) else trim (repo st))"

subsection \<open>What a request comes back with\<close>

text \<open>
  \<open>await fetch(..)\<close> rejects, or \<open>await res.json()\<close> rejects, or the body parses to a
  value. Everything thrown in the three \<open>try\<close> blocks is an Error object; it is modelled
  by its message. The messages of the engine's own TypeErrors are parameters:
  \<open>nullRead k\<close> for reading property \<open>k\<close> of \<open>null\<close>, \<open>notCallable k\<close> for calling a
  property \<open>k\<close> that is not a function.
\<close>

datatype fetch_outcome = FetchRejected string | JsonRejected string | JsonBody jsval

record engine =
  nullRead :: "string \<Rightarrow> string"
  notCallable :: "string \<Rightarrow> string"

text \<open>\<open>if (!json.ok) throw new Error(json.error || dflt)\<close>.\<close>

definition checkOk :: "engine \<Rightarrow> string \<Rightarrow> jsval \<Rightarrow> string + jsval" where
  "checkOk eng dflt j =
     (if nullish j then Inl (nullRead eng ''ok'')
      else if \<not> truthy (getProp j ''ok'') then Inl (toStr (jsOr (getProp j ''error'') (JStr dflt)))
      else Inr j)"

text \<open>\<open>(json.data || []).filter((b) => b.type === 'text').map((b) => b.text)\<close>.\<close>

definition textItems :: "engine \<Rightarrow> jsval \<Rightarrow> string + jsval list" where
  "textItems eng j =
     (case jsOr (getProp j ''data'') (JArr []) of
        JArr bs \<Rightarrow>
          if list_ex nullish bs then Inl (nullRead eng ''type'')
          else Inr (map (\<lambda>b. getProp b ''text'') (filter (\<lambda>b. getProp b ''type'' = JStr ''text'') bs))
      | _ \<Rightarrow> Inl (notCallable eng ''filter''))"

text \<open>The part of a \<open>try\<close> block from the \<open>fetch\<close> to the list of texts, the same in all three.\<close>

definition received :: "engine \<Rightarrow> string \<Rightarrow> fetch_outcome \<Rightarrow> string + jsval list" where
  "received eng dflt outcome =
     (case outcome of
        FetchRejected m \<Rightarrow> Inl m
      | JsonRejected m \<Rightarrow> Inl m
      | JsonBody j \<Rightarrow> (case checkOk eng dflt j of Inl m \<Rightarrow> Inl m | Inr j' \<Rightarrow> textItems eng j'))"

subsection \<open>The effect on owner and repo\<close>

text \<open>
  Each asynchronous function is split where it first waits: the first part runs at once
  and gives the new state with the requests it issued, the second part
  (\<open>_settled\<close>) runs when the request comes back.
\<close>

definition structure_request :: "ui_state \<Rightarrow> request" where
  "structure_request st =
     \<lparr>method = GET, path = ''/api/structure'',
      query = [(''owner'', JStr (owner st)), (''repo'', JStr (repo st))], body = JUndefined\<rparr>"

definition effect :: "ui_state \<Rightarrow> ui_state \<times> request list" where
  "effect st =
     (let st1 = st\<lparr>structure := [], selectedTopic := JStr [], doc := []\<rparr>
      in if canQuery st1 = [] then (st1, [])
         else (st1\<lparr>loading := True, error := []\<rparr>, [structure_request st1]))"

definition effect_settled :: "engine \<Rightarrow> fetch_outcome \<Rightarrow> ui_state \<Rightarrow> ui_state" where
  "effect_settled eng outcome st =
     (case received eng ''Failed to load structure'' outcome of
        Inl m \<Rightarrow> st\<lparr>error := m\<rparr>
      | Inr items \<Rightarrow> st\<lparr>structure := items\<rparr>)\<lparr>loading := False\<rparr>"

text \<open>
  \<open>setOwner\<close> and \<open>setRepo\<close> from the two input fields: a value equal to the current one
  changes nothing; any other value changes a dependency of the effect, which runs.
\<close>

definition setOwner :: "string \<Rightarrow> ui_state \<Rightarrow> ui_state \<times> request list" where
  "setOwner v st = (if v = owner st then (st, []) else effect (st\<lparr>owner := v\<rparr>))"

definition setRepo :: "string \<Rightarrow> ui_state \<Rightarrow> ui_state \<times> request list" where
  "setRepo v st = (if v = repo st then (st, []) else effect (st\<lparr>repo := v\<rparr>))"

subsection \<open>loadTopic and ask\<close>

definition contents_request :: "jsval \<Rightarrow> ui_state \<Rightarrow> request" where
  "contents_request topic st =
     \<lparr>method = GET, path = ''/api/contents'',
      query = [(''owner'', JStr (owner st)), (''repo'', JStr (repo st)), (''topic'', JStr (toStr topic))],
      body = JUndefined\<rparr>"

definition loadTopic :: "jsval \<Rightarrow> ui_state \<Rightarrow> ui_state \<times> request list" where
  "loadTopic topic st =
     (if \<not> truthy topic then (st, [])
      else (st\<lparr>selectedTopic := topic, doc := [], loading := True, error := []\<rparr>,
            [contents_request topic st]))"

definition loadTopic_settled :: "engine \<Rightarrow> fetch_outcome \<Rightarrow> ui_state \<Rightarrow> ui_state" where
  "loadTopic_settled eng outcome st =
     (case received eng ''Failed to load contents'' outcome of
        Inl m \<Rightarrow> st\<lparr>error := m\<rparr>
      | Inr items \<Rightarrow> st\<lparr>doc := array_join [CHR 0x0A, CHR 0x0A] items\<rparr>)\<lparr>loading := False\<rparr>"

definition ask_request :: "ui_state \<Rightarrow> request" where
  "ask_request st =
     \<lparr>method = POST, path = ''/api/ask'', query = [],
      body = JObj [(''owner'', JStr (owner st)), (''repo'', JStr (repo st)),
                   (''question'', JStr (question st))]\<rparr>"

definition ask :: "ui_state \<Rightarrow> ui_state \<times> request list" where
  "ask st =
     (if canQuery st = [] \<or> trim (question st) = [] then (st, [])
      else (st\<lparr>answer := [], loading := True, error := []\<rparr>, [ask_request st]))"

definition ask_settled :: "engine \<Rightarrow> fetch_outcome \<Rightarrow> ui_state \<Rightarrow> ui_state" where
  "ask_settled eng outcome st =
     (case received eng ''ask_question failed'' outcome of
        Inl m \<Rightarrow> st\<lparr>error := m\<rparr>
      | Inr items \<Rightarrow> st\<lparr>answer := array_join [CHR 0x0A, CHR 0x0A] items\<rparr>)\<lparr>loading := False\<rparr>"

section \<open>Notions used in the statements\<close>

subsection \<open>Requests with and without their inputs\<close>

text \<open>
  A required input is missing when the handler's test finds it falsy: the property is
  absent, or it is the empty string (or, in a JSON body, \<open>null\<close>, \<open>false\<close> or \<open>0\<close>).
\<close>

definition structure_missing :: "request \<Rightarrow> bool" where
  "structure_missing req =
     (\<not> truthy (getProp (JObj (query req)) ''owner'') \<or> \<not> truthy (getProp (JObj (query req)) ''repo''))"

definition ask_missing :: "request \<Rightarrow> bool" where
  "ask_missing req =
     (\<not> truthy (getProp (body req) ''owner'') \<or> \<not> truthy (getProp (body req) ''repo'')
      \<or> \<not> truthy (getProp (body req) ''question''))"

text \<open>The argument the handlers pass to \<open>client.tool.invoke\<close> for a request.\<close>

definition structure_call :: "request \<Rightarrow> tool_call" where
  "structure_call req =
     \<lparr>toolName = ''read_wiki_structure'',
      arguments = [(''owner'', getProp (JObj (query req)) ''owner''),
                   (''repo'', getProp (JObj (query req)) ''repo'')]\<rparr>"

definition ask_call :: "request \<Rightarrow> tool_call" where
  "ask_call req =
     \<lparr>toolName = ''ask_question'',
      arguments = [(''owner'', getProp (body req) ''owner''),
                   (''repo'', getProp (body req) ''repo''),
                   (''question'', getProp (body req) ''question'')]\<rparr>"

text \<open>
  The remote call \<open>c\<close> made in state \<open>st\<close> resolves with \<open>result\<close>, or throws \<open>err\<close>;
  in both cases the client promise itself resolved.
\<close>

definition resolves :: "environment \<Rightarrow> server_state \<Rightarrow> tool_call \<Rightarrow> jsval \<Rightarrow> bool" where
  "resolves env st c result =
     (connect env (fst (getMcpClient st)) = None \<and> invoke env (length (invocations st)) c = Inr result)"

definition throws :: "environment \<Rightarrow> server_state \<Rightarrow> tool_call \<Rightarrow> jsval \<Rightarrow> bool" where
  "throws env st c err =
     (connect env (fst (getMcpClient st)) = None \<and> invoke env (length (invocations st)) c = Inl err)"

text \<open>What holds of the module state whenever requests are served one after the other.\<close>

definition client_inv :: "server_state \<Rightarrow> bool" where
  "client_inv st =
     (mcpClientPromise st = None \<and> created st = 0 \<or> mcpClientPromise st = Some 0 \<and> created st = 1)"

subsection \<open>Concrete inputs\<close>

text \<open>
  A remote side that always resolves with the same result, and one that always throws
  the same value; two requests with an input left out; a structure request for a given
  owner and repo; the three content blocks of the running example, the image block
  with any further properties; an engine with fixed error texts; an ask request that
  arrives without a body; the state of the view in which the owner was changed to a
  single space while the first structure request was under way, and the reply to that
  request, with one topic, has come back since.
\<close>

definition env_resolving :: "jsval \<Rightarrow> environment" where
  "env_resolving result =
     \<lparr>connect = (\<lambda>p. None), invoke = (\<lambda>n c. Inr result), destructureError = ''req.body is undefined''\<rparr>"

definition env_throwing :: "jsval \<Rightarrow> environment" where
  "env_throwing err =
     \<lparr>connect = (\<lambda>p. None), invoke = (\<lambda>n c. Inl err), destructureError = ''req.body is undefined''\<rparr>"

definition req_no_owner :: request where
  "req_no_owner = \<lparr>method = GET, path = ''/api/structure'', query = [(''repo'', JStr ''react'')], body = JUndefined\<rparr>"

definition req_no_question :: request where
  "req_no_question =
     \<lparr>method = POST, path = ''/api/ask'', query = [],
      body = JObj [(''owner'', JStr ''facebook''), (''repo'', JStr ''react'')]\<rparr>"

definition structure_get :: "string \<Rightarrow> string \<Rightarrow> jsval \<Rightarrow> request" where
  "structure_get ow rp b =
     \<lparr>method = GET, path = ''/api/structure'', query = [(''owner'', JStr ow), (''repo'', JStr rp)], body = b\<rparr>"

definition blocks_A_image_B :: "(string \<times> jsval) list \<Rightarrow> jsval list" where
  "blocks_A_image_B extra =
     [JObj [(''type'', JStr ''text''), (''text'', JStr ''A'')],
      JObj ((''type'', JStr ''image'') # extra),
      JObj [(''type'', JStr ''text''), (''text'', JStr ''B'')]]"

definition engine0 :: engine where
  "engine0 = \<lparr>nullRead = (\<lambda>k. ''Cannot read properties of null''), notCallable = (\<lambda>k. ''not a function'')\<rparr>"

definition req_nobody :: request where
  "req_nobody = \<lparr>method = POST, path = ''/api/ask'', query = [], body = JUndefined\<rparr>"

definition ui_stale :: ui_state where
  "ui_stale =
     effect_settled engine0
       (JsonBody (JObj [(''ok'', JBool True),
                        (''data'', JArr [JObj [(''type'', JStr ''text''), (''text'', JStr ''Overview'')]])]))
       (fst (setOwner '' '' (fst (effect ui_init))))"

section \<open>The proxy: what the handlers do\<close>

subsection \<open>The client promise and the remote call\<close>

lemma getMcpClient_invocations [simp]: "invocations (snd (getMcpClient st)) = invocations st"
  by (simp add: getMcpClient_def split: option.split)

lemma getMcpClient_errlog [simp]: "errlog (snd (getMcpClient st)) = errlog st"
  by (simp add: getMcpClient_def split: option.split)

lemma getMcpClient_promise: "mcpClientPromise (snd (getMcpClient st)) = Some (fst (getMcpClient st))"
  by (simp add: getMcpClient_def split: option.split)

lemma call_tool_resolved:
  "resolves env st c result \<Longrightarrow>
   call_tool env c res st =
     (Inr (), json (okBody result) res, (snd (getMcpClient st))\<lparr>invocations := invocations st @ [c]\<rparr>)"
proof -
  assume r: "resolves env st c result"
  obtain p st1 where g: "getMcpClient st = (p, st1)" by (cases "getMcpClient st")
  have i: "invocations st1 = invocations st" using getMcpClient_invocations [of st] g by simp
  from r g have "connect env p = None" "invoke env (length (invocations st)) c = Inr result"
    by (simp_all add: resolves_def)
  then show ?thesis using g i by (simp add: call_tool_def await_client_def tool_invoke_def)
qed

lemma call_tool_thrown:
  "throws env st c err \<Longrightarrow>
   call_tool env c res st =
     (Inl err, res, (snd (getMcpClient st))\<lparr>invocations := invocations st @ [c]\<rparr>)"
proof -
  assume r: "throws env st c err"
  obtain p st1 where g: "getMcpClient st = (p, st1)" by (cases "getMcpClient st")
  have i: "invocations st1 = invocations st" using getMcpClient_invocations [of st] g by simp
  from r g have "connect env p = None" "invoke env (length (invocations st)) c = Inl err"
    by (simp_all add: throws_def)
  then show ?thesis using g i by (simp add: call_tool_def await_client_def tool_invoke_def)
qed

lemma call_tool_rejected:
  "connect env (fst (getMcpClient st)) = Some e \<Longrightarrow>
   call_tool env c res st = (Inl e, res, snd (getMcpClient st))"
proof -
  assume r: "connect env (fst (getMcpClient st)) = Some e"
  obtain p st1 where g: "getMcpClient st = (p, st1)" by (cases "getMcpClient st")
  with r show ?thesis by (simp add: call_tool_def await_client_def)
qed

subsection \<open>Each handler, case by case\<close>

lemma structure_try_missing:
  "structure_missing req \<Longrightarrow>
   structure_try env req res st =
     (Inr (), json (JObj [(''error'', JStr ''owner and repo are required'')]) (status 400 res), st)"
  by (simp add: structure_missing_def structure_try_def Let_def)

lemma structure_try_present:
  "\<not> structure_missing req \<Longrightarrow> structure_try env req res st = call_tool env (structure_call req) res st"
  by (simp add: structure_missing_def structure_try_def structure_call_def Let_def)

lemma ask_try_nobody:
  "nullish (body req) \<Longrightarrow>
   ask_try env req res st = (Inl (JObj [(''message'', JStr (destructureError env))]), res, st)"
  by (simp add: ask_try_def)

lemma ask_try_missing:
  "\<not> nullish (body req) \<Longrightarrow> ask_missing req \<Longrightarrow>
   ask_try env req res st =
     (Inr (), json (JObj [(''error'', JStr ''owner, repo, question are required'')]) (status 400 res), st)"
  by (simp add: ask_missing_def ask_try_def Let_def)

lemma ask_try_present:
  "\<not> nullish (body req) \<Longrightarrow> \<not> ask_missing req \<Longrightarrow>
   ask_try env req res st = call_tool env (ask_call req) res st"
  by (simp add: ask_missing_def ask_try_def ask_call_def Let_def)

lemma ask_missing_not_nullish: "\<not> ask_missing req \<Longrightarrow> \<not> nullish (body req)"
  by (cases "body req") (simp_all add: ask_missing_def)

lemma structure_handler_missing:
  "structure_missing req \<Longrightarrow>
   structure_handler env req st =
     (\<lparr>statusCode = 400, sent = [(400, JObj [(''error'', JStr ''owner and repo are required'')])]\<rparr>, st)"
  by (simp add: structure_handler_def structure_try_missing catch_clause_def json_def status_def res0_def)

lemma ask_handler_missing:
  "\<not> nullish (body req) \<Longrightarrow> ask_missing req \<Longrightarrow>
   ask_handler env req st =
     (\<lparr>statusCode = 400, sent = [(400, JObj [(''error'', JStr ''owner, repo, question are required'')])]\<rparr>, st)"
  by (simp add: ask_handler_def ask_try_missing catch_clause_def json_def status_def res0_def)

lemma ask_handler_nobody:
  "nullish (body req) \<Longrightarrow>
   ask_handler env req st =
     (\<lparr>statusCode = 500, sent = [(500, JObj [(''ok'', JBool False), (''error'', jsOr (JStr (destructureError env)) (JStr ''unknown error''))])]\<rparr>,
      st\<lparr>errlog := errlog st @ [(''ask error'', JObj [(''message'', JStr (destructureError env))])]\<rparr>)"
  by (simp add: ask_handler_def ask_try_nobody catch_clause_def json_def status_def res0_def errBody_def optChain_def)

lemma structure_handler_resolved:
  "\<not> structure_missing req \<Longrightarrow> resolves env st (structure_call req) result \<Longrightarrow>
   structure_handler env req st =
     (\<lparr>statusCode = 200, sent = [(200, okBody result)]\<rparr>,
      (snd (getMcpClient st))\<lparr>invocations := invocations st @ [structure_call req]\<rparr>)"
  by (simp add: structure_handler_def structure_try_present call_tool_resolved catch_clause_def
      json_def res0_def)

lemma ask_handler_resolved:
  "\<not> ask_missing req \<Longrightarrow> resolves env st (ask_call req) result \<Longrightarrow>
   ask_handler env req st =
     (\<lparr>statusCode = 200, sent = [(200, okBody result)]\<rparr>,
      (snd (getMcpClient st))\<lparr>invocations := invocations st @ [ask_call req]\<rparr>)"
  by (simp add: ask_handler_def ask_try_present ask_missing_not_nullish call_tool_resolved
      catch_clause_def json_def res0_def)

lemma structure_handler_thrown:
  "\<not> structure_missing req \<Longrightarrow> throws env st (structure_call req) err \<Longrightarrow>
   structure_handler env req st =
     (\<lparr>statusCode = 500, sent = [(500, errBody err)]\<rparr>,
      (snd (getMcpClient st))\<lparr>invocations := invocations st @ [structure_call req],
                               errlog := errlog st @ [(''structure error'', err)]\<rparr>)"
  by (simp add: structure_handler_def structure_try_present call_tool_thrown catch_clause_def
      json_def status_def res0_def)

lemma ask_handler_thrown:
  "\<not> ask_missing req \<Longrightarrow> throws env st (ask_call req) err \<Longrightarrow>
   ask_handler env req st =
     (\<lparr>statusCode = 500, sent = [(500, errBody err)]\<rparr>,
      (snd (getMcpClient st))\<lparr>invocations := invocations st @ [ask_call req],
                               errlog := errlog st @ [(''ask error'', err)]\<rparr>)"
  by (simp add: ask_handler_def ask_try_present ask_missing_not_nullish call_tool_thrown
      catch_clause_def json_def status_def res0_def)

lemma okBody_unfold:
  "okBody result =
     JObj [(''ok'', JBool True),
           (''data'', if nullish (optChain result ''content'') then JArr [] else optChain result ''content'')]"
  by (simp add: okBody_def nullishOr_def)

lemma errBody_unfold:
  "errBody err =
     JObj [(''ok'', JBool False),
           (''error'', if truthy (optChain err ''message'') then optChain err ''message''
                       else JStr ''unknown error'')]"
  by (simp add: errBody_def jsOr_def)

lemma okBody_content:
  "optChain result ''content'' = JArr bs \<Longrightarrow>
   okBody result = JObj [(''ok'', JBool True), (''data'', JArr bs)]"
  by (simp add: okBody_def nullishOr_def)

lemma catch_call_tool_status:
  "map fst (sent (fst (catch_clause label (call_tool env c res0 st)))) = [200]
   \<or> map fst (sent (fst (catch_clause label (call_tool env c res0 st)))) = [500]"
proof -
  obtain p st1 where g: "getMcpClient st = (p, st1)" by (cases "getMcpClient st")
  show ?thesis
    by (cases "connect env p"; cases "invoke env (length (invocations st1)) c")
      (simp_all add: g call_tool_def await_client_def tool_invoke_def catch_clause_def
        json_def status_def res0_def)
qed

lemma catch_call_tool_promise:
  "mcpClientPromise (snd (catch_clause label (call_tool env c res st))) = Some (fst (getMcpClient st))"
proof -
  obtain p st1 where g: "getMcpClient st = (p, st1)" by (cases "getMcpClient st")
  have m: "mcpClientPromise st1 = Some p" using getMcpClient_promise [of st] g by simp
  show ?thesis
    by (cases "connect env p"; cases "invoke env (length (invocations st1)) c")
      (simp_all add: g m call_tool_def await_client_def tool_invoke_def catch_clause_def)
qed

lemma catch_call_tool_invocations:
  "connect env (fst (getMcpClient st)) = None \<Longrightarrow>
   invocations (snd (catch_clause label (call_tool env c res st))) = invocations st @ [c]"
proof -
  assume r: "connect env (fst (getMcpClient st)) = None"
  obtain p st1 where g: "getMcpClient st = (p, st1)" by (cases "getMcpClient st")
  have i: "invocations st1 = invocations st" using getMcpClient_invocations [of st] g by simp
  from r g have "connect env p = None" by simp
  then show ?thesis
    by (cases "invoke env (length (invocations st1)) c")
      (simp_all add: g i call_tool_def await_client_def tool_invoke_def catch_clause_def)
qed

subsection \<open>The concrete inputs\<close>

lemma req_no_owner_missing: "structure_missing req_no_owner"
  by (simp add: structure_missing_def req_no_owner_def)

lemma req_no_question_missing: "\<not> nullish (body req_no_question) \<and> ask_missing req_no_question"
  by (simp add: ask_missing_def req_no_question_def)

lemma ui_requests_present:
  "\<not> structure_missing (structure_request ui_init)" "\<not> ask_missing (ask_request ui_init)"
  by (simp_all add: structure_missing_def ask_missing_def structure_request_def ask_request_def ui_init_def)

lemma resolves_env_resolving: "resolves (env_resolving r) st c r"
  by (simp add: resolves_def env_resolving_def)

lemma throws_env_throwing: "throws (env_throwing e) st c e"
  by (simp add: throws_def env_throwing_def)

lemma structure_get_present: "ow \<noteq> [] \<Longrightarrow> rp \<noteq> [] \<Longrightarrow> \<not> structure_missing (structure_get ow rp b)"
  by (simp add: structure_missing_def structure_get_def)

lemma structure_get_call:
  "structure_call (structure_get ow rp b) =
     \<lparr>toolName = ''read_wiki_structure'', arguments = [(''owner'', JStr ow), (''repo'', JStr rp)]\<rparr>"
  by (simp add: structure_call_def structure_get_def)

lemma trim_examples: "trim '' '' = []" "trim ''vuejs'' = ''vuejs''" "trim ''react'' = ''react''" "trim ''facebook'' = ''facebook''"
  by (simp_all add: trim_def is_space_def)

subsection \<open>The routes\<close>

text \<open>
  C1. The claim: the proxy has a GET operation at \<open>/api/contents\<close> and answers every such
  request with an envelope. The application registers \<open>/api/structure\<close> and \<open>/api/ask\<close>
  only: no handler of the application answers a GET of \<open>/api/contents\<close>, whatever its query
  and body, and none answers the request that \<open>loadTopic\<close> of the view sends. The state is
  left as it was.
\<close>

theorem contents_route_unhandled:
  "app env \<lparr>method = GET, path = ''/api/contents'', query = q, body = b\<rparr> st = (None, st)
   \<and> app env (contents_request topic ui) st = (None, st)"
  by (simp add: app_def dispatch_def path_matches_def lower_char_def contents_request_def)

subsection \<open>Missing inputs\<close>

text \<open>
  C2. The claim: a request with a required input missing is answered with status 400 and the
  body \<open>{ok: false, error: string}\<close>. At a structure request without owner and at an ask
  request without question the status is 400 and the body is \<open>{error: string}\<close>: it has no
  \<open>ok\<close> property.
\<close>

theorem validation_reply_lacks_ok:
  "structure_handler env req_no_owner st =
     (\<lparr>statusCode = 400, sent = [(400, JObj [(''error'', JStr ''owner and repo are required'')])]\<rparr>, st)
   \<and> getProp (JObj [(''error'', JStr ''owner and repo are required'')]) ''ok'' = JUndefined
   \<and> ask_handler env req_no_question st =
     (\<lparr>statusCode = 400, sent = [(400, JObj [(''error'', JStr ''owner, repo, question are required'')])]\<rparr>, st)
   \<and> getProp (JObj [(''error'', JStr ''owner, repo, question are required'')]) ''ok'' = JUndefined"
  using req_no_owner_missing req_no_question_missing
  by (simp add: structure_handler_missing ask_handler_missing)

text \<open>
  A structure request whose owner or repo is missing, and an ask request whose body is a
  value that lacks owner, repo or question, is answered with status 400 and the module
  state is returned as it was: no client was made and \<open>invoke\<close> was not called. An ask
  request whose \<open>req.body\<close> is \<open>undefined\<close> or \<open>null\<close> calls neither.
\<close>

lemma missing_input_answered_400:
  "(structure_missing req \<longrightarrow>
      structure_handler env req st =
        (\<lparr>statusCode = 400, sent = [(400, JObj [(''error'', JStr ''owner and repo are required'')])]\<rparr>, st))
   \<and> (\<not> nullish (body req) \<and> ask_missing req \<longrightarrow>
      ask_handler env req st =
        (\<lparr>statusCode = 400, sent = [(400, JObj [(''error'', JStr ''owner, repo, question are required'')])]\<rparr>, st))
   \<and> (nullish (body req) \<longrightarrow>
      invocations (snd (ask_handler env req st)) = invocations st
      \<and> created (snd (ask_handler env req st)) = created st
      \<and> mcpClientPromise (snd (ask_handler env req st)) = mcpClientPromise st)"
  by (simp add: structure_handler_missing ask_handler_missing ask_handler_nobody)

text \<open>
  C4. The claim: a request to structure or ask with a required field missing is answered
  with a client-error status, and \<open>invoke\<close> is not called. An ask request that arrives
  without a body has none of the three fields; it is routed to the ask handler, the
  destructuring of \<open>req.body\<close> throws, and the catch clause answers with status 500 and
  \<open>{ok: false, error: ...}\<close>. \<open>invoke\<close> is not called and no client is made.
\<close>

theorem ask_without_body_answers_500:
  "dispatch req_nobody = Some Ask
   \<and> getProp (body req_nobody) ''owner'' = JUndefined
   \<and> getProp (body req_nobody) ''repo'' = JUndefined
   \<and> getProp (body req_nobody) ''question'' = JUndefined
   \<and> ask_handler env req_nobody st =
       (\<lparr>statusCode = 500,
         sent = [(500, JObj [(''ok'', JBool False),
                             (''error'', if destructureError env = [] then JStr ''unknown error''
                                         else JStr (destructureError env))])]\<rparr>,
        st\<lparr>errlog := errlog st @ [(''ask error'', JObj [(''message'', JStr (destructureError env))])]\<rparr>)
   \<and> invocations (snd (ask_handler env req_nobody st)) = invocations st
   \<and> created (snd (ask_handler env req_nobody st)) = created st"
proof -
  have n: "nullish (body req_nobody)" by (simp add: req_nobody_def)
  have d: "dispatch req_nobody = Some Ask"
    by (simp add: dispatch_def path_matches_def lower_char_def req_nobody_def)
  show ?thesis using d by (simp add: ask_handler_nobody [OF n] jsOr_def) (simp add: req_nobody_def)
qed

subsection \<open>The remote call comes back\<close>

text \<open>
  A remote call that resolves with an object without \<open>content\<close> is answered with status 200
  and \<open>{ok: true, data: []}\<close>, not with a failure.
\<close>

theorem malformed_result_counterexample:
  "fst (structure_handler (env_resolving (JObj [])) (structure_request ui_init) server_init) =
     \<lparr>statusCode = 200, sent = [(200, JObj [(''ok'', JBool True), (''data'', JArr [])])]\<rparr>"
  using structure_handler_resolved [OF ui_requests_present(1) resolves_env_resolving,
      of "JObj []" server_init]
  by (simp add: okBody_unfold optChain_def)

text \<open>
  C3, as amended. When the remote call resolves, both handlers answer once, with status 200
  and \<open>{ok: true, data: d}\<close>, where \<open>d\<close> is the \<open>content\<close> of the result, and the empty array
  when the result is \<open>null\<close> or \<open>undefined\<close> or has no \<open>content\<close> (or a \<open>null\<close> one).
\<close>

theorem resolved_result_is_success:
  "(\<not> structure_missing req \<and> resolves env st (structure_call req) result \<longrightarrow>
      fst (structure_handler env req st) =
        \<lparr>statusCode = 200,
         sent = [(200, JObj [(''ok'', JBool True),
                             (''data'', if nullish (optChain result ''content'') then JArr []
                                        else optChain result ''content'')])]\<rparr>)
   \<and> (\<not> ask_missing req \<and> resolves env st (ask_call req) result \<longrightarrow>
      fst (ask_handler env req st) =
        \<lparr>statusCode = 200,
         sent = [(200, JObj [(''ok'', JBool True),
                             (''data'', if nullish (optChain result ''content'') then JArr []
                                        else optChain result ''content'')])]\<rparr>)"
proof (intro conjI impI)
  assume "\<not> structure_missing req \<and> resolves env st (structure_call req) result"
  then show "fst (structure_handler env req st) =
        \<lparr>statusCode = 200,
         sent = [(200, JObj [(''ok'', JBool True),
                             (''data'', if nullish (optChain result ''content'') then JArr []
                                        else optChain result ''content'')])]\<rparr>"
    using structure_handler_resolved [of req env st result] by (simp add: okBody_unfold)
next
  assume "\<not> ask_missing req \<and> resolves env st (ask_call req) result"
  then show "fst (ask_handler env req st) =
        \<lparr>statusCode = 200,
         sent = [(200, JObj [(''ok'', JBool True),
                             (''data'', if nullish (optChain result ''content'') then JArr []
                                        else optChain result ''content'')])]\<rparr>"
    using ask_handler_resolved [of req env st result] by (simp add: okBody_unfold)
qed

theorem resolved_result_is_success_witness:
  "fst (ask_handler (env_resolving JNull) (ask_request ui_init) server_init) =
     \<lparr>statusCode = 200, sent = [(200, JObj [(''ok'', JBool True), (''data'', JArr [])])]\<rparr>"
  using resolved_result_is_success [of "ask_request ui_init" "env_resolving JNull" server_init JNull]
    ui_requests_present(2) resolves_env_resolving [of JNull server_init "ask_call (ask_request ui_init)"]
  by (simp add: optChain_def)

text \<open>
  A remote call that throws an error whose message is empty is answered with the error text
  \<open>unknown error\<close>, not with the message.
\<close>

theorem empty_message_counterexample:
  "fst (structure_handler (env_throwing (JObj [(''message'', JStr [])])) (structure_request ui_init) server_init) =
     \<lparr>statusCode = 500, sent = [(500, JObj [(''ok'', JBool False), (''error'', JStr ''unknown error'')])]\<rparr>"
  using structure_handler_thrown [OF ui_requests_present(1) throws_env_throwing,
      of "JObj [(''message'', JStr [])]" server_init]
  by (simp add: errBody_unfold optChain_def)

text \<open>
  C5, as amended. When the remote call throws \<open>err\<close>, both handlers answer once, with status 500
  and \<open>{ok: false, error: m}\<close>, where \<open>m\<close> is \<open>err.message\<close> as it is when that is truthy, and
  the text \<open>unknown error\<close> otherwise (\<open>err\<close> is \<open>null\<close> or \<open>undefined\<close>, or has no message, or
  an empty one). The thrown value is logged once and the handler returns normally.
\<close>

theorem thrown_invocation_is_reported:
  "(\<not> structure_missing req \<and> throws env st (structure_call req) err \<longrightarrow>
      structure_handler env req st =
        (\<lparr>statusCode = 500,
          sent = [(500, JObj [(''ok'', JBool False),
                              (''error'', if truthy (optChain err ''message'') then optChain err ''message''
                                          else JStr ''unknown error'')])]\<rparr>,
         (snd (getMcpClient st))\<lparr>invocations := invocations st @ [structure_call req],
                                  errlog := errlog st @ [(''structure error'', err)]\<rparr>))
   \<and> (\<not> ask_missing req \<and> throws env st (ask_call req) err \<longrightarrow>
      ask_handler env req st =
        (\<lparr>statusCode = 500,
          sent = [(500, JObj [(''ok'', JBool False),
                              (''error'', if truthy (optChain err ''message'') then optChain err ''message''
                                          else JStr ''unknown error'')])]\<rparr>,
         (snd (getMcpClient st))\<lparr>invocations := invocations st @ [ask_call req],
                                  errlog := errlog st @ [(''ask error'', err)]\<rparr>))"
proof (intro conjI impI)
  assume "\<not> structure_missing req \<and> throws env st (structure_call req) err"
  then show "structure_handler env req st =
        (\<lparr>statusCode = 500,
          sent = [(500, JObj [(''ok'', JBool False),
                              (''error'', if truthy (optChain err ''message'') then optChain err ''message''
                                          else JStr ''unknown error'')])]\<rparr>,
         (snd (getMcpClient st))\<lparr>invocations := invocations st @ [structure_call req],
                                  errlog := errlog st @ [(''structure error'', err)]\<rparr>)"
    using structure_handler_thrown [of req env st err] by (simp add: errBody_unfold)
next
  assume "\<not> ask_missing req \<and> throws env st (ask_call req) err"
  then show "ask_handler env req st =
        (\<lparr>statusCode = 500,
          sent = [(500, JObj [(''ok'', JBool False),
                              (''error'', if truthy (optChain err ''message'') then optChain err ''message''
                                          else JStr ''unknown error'')])]\<rparr>,
         (snd (getMcpClient st))\<lparr>invocations := invocations st @ [ask_call req],
                                  errlog := errlog st @ [(''ask error'', err)]\<rparr>)"
    using ask_handler_thrown [of req env st err] by (simp add: errBody_unfold)
qed

theorem thrown_invocation_is_reported_witness:
  "fst (ask_handler (env_throwing (JObj [(''message'', JStr ''socket hang up'')])) (ask_request ui_init) server_init) =
     \<lparr>statusCode = 500, sent = [(500, JObj [(''ok'', JBool False), (''error'', JStr ''socket hang up'')])]\<rparr>"
  using thrown_invocation_is_reported [of "ask_request ui_init"
      "env_throwing (JObj [(''message'', JStr ''socket hang up'')])" server_init
      "JObj [(''message'', JStr ''socket hang up'')]"]
    ui_requests_present(2)
    throws_env_throwing [of "JObj [(''message'', JStr ''socket hang up'')]" server_init
      "ask_call (ask_request ui_init)"]
  by (simp add: optChain_def)

subsection \<open>One client\<close>

lemma client_inv_init: "client_inv server_init"
  by (simp add: client_inv_def server_init_def)

lemma client_inv_getMcpClient:
  "client_inv st \<Longrightarrow> fst (getMcpClient st) = 0 \<and> mcpClientPromise (snd (getMcpClient st)) = Some 0
     \<and> created (snd (getMcpClient st)) = 1"
  by (auto simp: client_inv_def getMcpClient_def)

lemma client_inv_call_tool: "client_inv st \<Longrightarrow> client_inv (snd (snd (call_tool env c res st)))"
proof -
  assume inv: "client_inv st"
  obtain p st1 where g: "getMcpClient st = (p, st1)" by (cases "getMcpClient st")
  with client_inv_getMcpClient [OF inv] have "client_inv st1" by (simp add: client_inv_def)
  then show ?thesis using g
    by (simp add: call_tool_def await_client_def tool_invoke_def client_inv_def
        split: option.split sum.split)
qed

lemma client_inv_catch: "client_inv (snd (snd r)) \<Longrightarrow> client_inv (snd (catch_clause label r))"
  by (cases r) (auto simp: catch_clause_def client_inv_def split: sum.split)

lemma client_inv_structure: "client_inv st \<Longrightarrow> client_inv (snd (structure_handler env req st))"
  unfolding structure_handler_def
  by (rule client_inv_catch) (simp add: structure_try_def Let_def client_inv_call_tool)

lemma client_inv_ask: "client_inv st \<Longrightarrow> client_inv (snd (ask_handler env req st))"
  unfolding ask_handler_def
  by (rule client_inv_catch) (simp add: ask_try_def Let_def client_inv_call_tool)

lemma client_inv_app: "client_inv st \<Longrightarrow> client_inv (snd (app env req st))"
proof -
  assume inv: "client_inv st"
  obtain r1 s1 where h1: "structure_handler env req st = (r1, s1)" by (cases "structure_handler env req st")
  obtain r2 s2 where h2: "ask_handler env req st = (r2, s2)" by (cases "ask_handler env req st")
  from client_inv_structure [OF inv, of env req] h1 have i1: "client_inv s1" by simp
  from client_inv_ask [OF inv, of env req] h2 have i2: "client_inv s2" by simp
  show ?thesis using inv i1 i2 h1 h2
    by (simp add: app_def split: option.split route.split)
qed

lemma client_inv_run: "client_inv st \<Longrightarrow> client_inv (run env reqs st)"
  by (induction reqs arbitrary: st) (simp_all add: client_inv_app)

text \<open>
  C9. The module starts without a client. The first handler that reaches the remote call
  makes one. After any sequence of requests served one after the other,
  \<open>createMcpClient\<close> has been called at most once, and \<open>getMcpClient\<close> returns the promise
  made first, without making another.
\<close>

theorem single_client:
  "mcpClientPromise server_init = None \<and> created server_init = 0
   \<and> created (snd (snd (call_tool env c res server_init))) = 1
   \<and> created (run env reqs server_init) \<le> 1
   \<and> fst (getMcpClient (run env reqs server_init)) = 0
   \<and> created (snd (getMcpClient (run env reqs server_init))) = 1"
proof -
  have r: "client_inv (run env reqs server_init)" by (rule client_inv_run [OF client_inv_init])
  have c: "client_inv (snd (snd (call_tool env c res server_init)))"
    by (rule client_inv_call_tool [OF client_inv_init])
  have "mcpClientPromise (snd (snd (call_tool env c res server_init))) \<noteq> None"
    by (cases "connect env 0"; cases "invoke env 0 c")
      (simp_all add: call_tool_def getMcpClient_def server_init_def await_client_def tool_invoke_def)
  with c have "created (snd (snd (call_tool env c res server_init))) = 1"
    by (simp add: client_inv_def)
  moreover have "created (run env reqs server_init) \<le> 1" using r by (auto simp: client_inv_def)
  ultimately show ?thesis using client_inv_getMcpClient [OF r] by (simp add: server_init_def)
qed

section \<open>The view: what the actions do\<close>

lemma received_blocks:
  "received eng dflt (JsonBody (JObj [(''ok'', JBool True), (''data'', JArr (blocks_A_image_B extra))])) =
     Inr [JStr ''A'', JStr ''B'']"
  by (simp add: received_def checkOk_def textItems_def jsOr_def blocks_A_image_B_def)

lemma effect_unfold:
  "effect st =
     (if trim (owner st) = [] \<or> trim (repo st) = []
      then (st\<lparr>structure := [], selectedTopic := JStr [], doc := []\<rparr>, [])
      else (st\<lparr>structure := [], selectedTopic := JStr [], doc := [], loading := True, error := []\<rparr>,
            [\<lparr>method = GET, path = ''/api/structure'',
              query = [(''owner'', JStr (owner st)), (''repo'', JStr (repo st))], body = JUndefined\<rparr>]))"
  by (simp add: effect_def canQuery_def structure_request_def Let_def)

lemma ui_stale_unfold:
  "ui_stale = ui_init\<lparr>owner := '' '', structure := [JStr ''Overview'']\<rparr>"
  by (simp add: ui_stale_def effect_settled_def received_def checkOk_def textItems_def jsOr_def
      setOwner_def effect_unfold ui_init_def trim_examples)

text \<open>
  C6. When the remote call resolves with a result whose content is the blocks text A,
  image, text B, both handlers
  answer \<open>{ok: true, data: blocks}\<close> with all three blocks; from that body \<open>loadTopic\<close> sets
  the document, and \<open>ask\<close> the answer, to A, an empty line, B.
\<close>

theorem text_blocks_forwarded_then_joined:
  "(\<not> structure_missing req \<and> resolves env st (structure_call req) result
      \<and> optChain result ''content'' = JArr (blocks_A_image_B extra) \<longrightarrow>
      fst (structure_handler env req st) =
        \<lparr>statusCode = 200,
         sent = [(200, JObj [(''ok'', JBool True), (''data'', JArr (blocks_A_image_B extra))])]\<rparr>)
   \<and> (\<not> ask_missing req \<and> resolves env st (ask_call req) result
      \<and> optChain result ''content'' = JArr (blocks_A_image_B extra) \<longrightarrow>
      fst (ask_handler env req st) =
        \<lparr>statusCode = 200,
         sent = [(200, JObj [(''ok'', JBool True), (''data'', JArr (blocks_A_image_B extra))])]\<rparr>)
   \<and> doc (loadTopic_settled eng
        (JsonBody (JObj [(''ok'', JBool True), (''data'', JArr (blocks_A_image_B extra))])) ui)
      = ''A'' @ [CHR 0x0A, CHR 0x0A] @ ''B''
   \<and> answer (ask_settled eng
        (JsonBody (JObj [(''ok'', JBool True), (''data'', JArr (blocks_A_image_B extra))])) ui)
      = ''A'' @ [CHR 0x0A, CHR 0x0A] @ ''B''"
proof (intro conjI impI)
  assume "\<not> structure_missing req \<and> resolves env st (structure_call req) result
      \<and> optChain result ''content'' = JArr (blocks_A_image_B extra)"
  then show "fst (structure_handler env req st) =
        \<lparr>statusCode = 200,
         sent = [(200, JObj [(''ok'', JBool True), (''data'', JArr (blocks_A_image_B extra))])]\<rparr>"
    using structure_handler_resolved [of req env st result]
    by (simp add: okBody_content)
next
  assume "\<not> ask_missing req \<and> resolves env st (ask_call req) result
      \<and> optChain result ''content'' = JArr (blocks_A_image_B extra)"
  then show "fst (ask_handler env req st) =
        \<lparr>statusCode = 200,
         sent = [(200, JObj [(''ok'', JBool True), (''data'', JArr (blocks_A_image_B extra))])]\<rparr>"
    using ask_handler_resolved [of req env st result]
    by (simp add: okBody_content)
next
  show "doc (loadTopic_settled eng
        (JsonBody (JObj [(''ok'', JBool True), (''data'', JArr (blocks_A_image_B extra))])) ui)
      = ''A'' @ [CHR 0x0A, CHR 0x0A] @ ''B''"
    by (simp add: loadTopic_settled_def received_blocks array_join_def)
next
  show "answer (ask_settled eng
        (JsonBody (JObj [(''ok'', JBool True), (''data'', JArr (blocks_A_image_B extra))])) ui)
      = ''A'' @ [CHR 0x0A, CHR 0x0A] @ ''B''"
    by (simp add: ask_settled_def received_blocks array_join_def)
qed

theorem text_blocks_forwarded_then_joined_witness:
  "sent (fst (ask_handler (env_resolving (JObj [(''content'', JArr (blocks_A_image_B []))]))
       (ask_request ui_init) server_init))
     = [(200, JObj [(''ok'', JBool True), (''data'', JArr (blocks_A_image_B []))])]
   \<and> answer (ask_settled engine0
        (JsonBody (JObj [(''ok'', JBool True), (''data'', JArr (blocks_A_image_B []))])) ui_init)
      = [CHR ''A'', CHR 0x0A, CHR 0x0A, CHR ''B'']"
  using text_blocks_forwarded_then_joined [of "ask_request ui_init"
      "env_resolving (JObj [(''content'', JArr (blocks_A_image_B []))])" server_init
      "JObj [(''content'', JArr (blocks_A_image_B []))]" "[]" engine0 ui_init]
    ui_requests_present(2)
    resolves_env_resolving [of "JObj [(''content'', JArr (blocks_A_image_B []))]" server_init
      "ask_call (ask_request ui_init)"]
  by (simp add: optChain_def)

text \<open>
  With the owner changed to a single space, both fields are non-empty and no request is
  issued.
\<close>

theorem blank_owner_counterexample:
  "owner (fst (setOwner '' '' ui_init)) = '' '' \<and> repo (fst (setOwner '' '' ui_init)) = ''react''
   \<and> snd (setOwner '' '' ui_init) = []"
  by (simp add: setOwner_def effect_unfold ui_init_def trim_examples)

text \<open>
  C7, as amended. A change of owner or repo clears the structure, the selected topic and
  the document, and issues the structure request at once if and only if both fields are
  non-empty after trimming white space; otherwise it issues nothing.
\<close>

theorem owner_or_repo_change_clears_then_loads:
  "(v \<noteq> owner st \<longrightarrow>
      setOwner v st =
        (if trim v = [] \<or> trim (repo st) = []
         then (st\<lparr>owner := v, structure := [], selectedTopic := JStr [], doc := []\<rparr>, [])
         else (st\<lparr>owner := v, structure := [], selectedTopic := JStr [], doc := [],
                  loading := True, error := []\<rparr>,
               [\<lparr>method = GET, path = ''/api/structure'',
                 query = [(''owner'', JStr v), (''repo'', JStr (repo st))], body = JUndefined\<rparr>])))
   \<and> (v \<noteq> repo st \<longrightarrow>
      setRepo v st =
        (if trim (owner st) = [] \<or> trim v = []
         then (st\<lparr>repo := v, structure := [], selectedTopic := JStr [], doc := []\<rparr>, [])
         else (st\<lparr>repo := v, structure := [], selectedTopic := JStr [], doc := [],
                  loading := True, error := []\<rparr>,
               [\<lparr>method = GET, path = ''/api/structure'',
                 query = [(''owner'', JStr (owner st)), (''repo'', JStr v)], body = JUndefined\<rparr>])))"
  by (simp add: setOwner_def setRepo_def effect_unfold)

theorem owner_or_repo_change_clears_then_loads_witness:
  "snd (setOwner ''vuejs'' ui_init) =
     [\<lparr>method = GET, path = ''/api/structure'',
       query = [(''owner'', JStr ''vuejs''), (''repo'', JStr ''react'')], body = JUndefined\<rparr>]
   \<and> structure (fst (setOwner ''vuejs'' ui_init)) = []
   \<and> snd (setRepo '' '' ui_init) = []"
  using owner_or_repo_change_clears_then_loads [of "''vuejs''" ui_init]
    owner_or_repo_change_clears_then_loads [of "'' ''" ui_init]
  by (simp add: ui_init_def trim_examples)

text \<open>
  C8. \<open>ask\<close>, from the click to the end of the request, leaves the question as it was,
  however the request ends; the state afterwards differs from the state before in the
  answer, the loading flag and the error only. The second part of \<open>ask\<close> leaves the question
  of any state it runs in untouched.
\<close>

theorem ask_keeps_question:
  "question (fst (ask st)) = question st
   \<and> question (ask_settled eng outcome st1) = question st1
   \<and> ask_settled eng outcome (fst (ask st)) =
       st\<lparr>answer := answer (ask_settled eng outcome (fst (ask st))),
          loading := loading (ask_settled eng outcome (fst (ask st))),
          error := error (ask_settled eng outcome (fst (ask st)))\<rparr>"
proof (intro conjI)
  show "question (fst (ask st)) = question st" by (simp add: ask_def)
  show "question (ask_settled eng outcome st1) = question st1"
    by (cases "received eng ''ask_question failed'' outcome") (simp_all add: ask_settled_def)
  show "ask_settled eng outcome (fst (ask st)) =
       st\<lparr>answer := answer (ask_settled eng outcome (fst (ask st))),
          loading := loading (ask_settled eng outcome (fst (ask st))),
          error := error (ask_settled eng outcome (fst (ask st)))\<rparr>"
    by (cases "received eng ''ask_question failed'' outcome") (simp_all add: ask_settled_def ask_def)
qed

text \<open>
  In the state reached when the stale structure reply settles after the owner became a
  single space, the topic is listed, and \<open>loadTopic\<close> on it sends a request whose owner is
  that space; no handler of the proxy answers it. A structure request whose owner is a
  single space and whose repo is absent is answered with 400.
\<close>

theorem blank_request_counterexample:
  "structure ui_stale = [JStr ''Overview'']
   \<and> snd (loadTopic (JStr ''Overview'') ui_stale) =
       [\<lparr>method = GET, path = ''/api/contents'',
         query = [(''owner'', JStr '' ''), (''repo'', JStr ''react''), (''topic'', JStr ''Overview'')],
         body = JUndefined\<rparr>]
   \<and> app (env_resolving JNull)
        \<lparr>method = GET, path = ''/api/contents'',
         query = [(''owner'', JStr '' ''), (''repo'', JStr ''react''), (''topic'', JStr ''Overview'')],
         body = JUndefined\<rparr> server_init = (None, server_init)
   \<and> structure_handler (env_resolving JNull)
        \<lparr>method = GET, path = ''/api/structure'', query = [(''owner'', JStr '' '')], body = JUndefined\<rparr>
        server_init =
       (\<lparr>statusCode = 400, sent = [(400, JObj [(''error'', JStr ''owner and repo are required'')])]\<rparr>,
        server_init)"
proof (intro conjI)
  show "structure ui_stale = [JStr ''Overview'']" by (simp add: ui_stale_unfold)
  show "snd (loadTopic (JStr ''Overview'') ui_stale) =
       [\<lparr>method = GET, path = ''/api/contents'',
         query = [(''owner'', JStr '' ''), (''repo'', JStr ''react''), (''topic'', JStr ''Overview'')],
         body = JUndefined\<rparr>]"
    by (simp add: ui_stale_unfold loadTopic_def contents_request_def ui_init_def)
  show "app (env_resolving JNull)
        \<lparr>method = GET, path = ''/api/contents'',
         query = [(''owner'', JStr '' ''), (''repo'', JStr ''react''), (''topic'', JStr ''Overview'')],
         body = JUndefined\<rparr> server_init = (None, server_init)"
    by (simp add: app_def dispatch_def path_matches_def lower_char_def)
  show "structure_handler (env_resolving JNull)
        \<lparr>method = GET, path = ''/api/structure'', query = [(''owner'', JStr '' '')], body = JUndefined\<rparr>
        server_init =
       (\<lparr>statusCode = 400, sent = [(400, JObj [(''error'', JStr ''owner and repo are required'')])]\<rparr>,
        server_init)"
    by (rule structure_handler_missing) (simp add: structure_missing_def)
qed

lemma ask_request_present:
  "ow \<noteq> [] \<Longrightarrow> rp \<noteq> [] \<Longrightarrow> q \<noteq> [] \<Longrightarrow>
   \<not> ask_missing (ask_request (ui\<lparr>owner := ow, repo := rp, question := q\<rparr>))"
  by (simp add: ask_missing_def ask_request_def)

lemma ask_request_call:
  "ask_call (ask_request (ui\<lparr>owner := ow, repo := rp, question := q\<rparr>)) =
     \<lparr>toolName = ''ask_question'',
      arguments = [(''owner'', JStr ow), (''repo'', JStr rp), (''question'', JStr q)]\<rparr>"
  by (simp add: ask_call_def ask_request_def)

text \<open>
  C10, as amended. A structure request whose owner and repo are non-empty strings, one of
  them white space only, and an ask request with such owner and repo and a non-empty
  question, is not answered with 400: the handler obtains the client and, when the client
  promise resolves, calls \<open>invoke\<close> with these arguments. The effect and \<open>ask\<close> of the view,
  which test \<open>canQuery\<close>, issue no request in a state with that owner and repo.
\<close>

theorem blank_identifier_passes_proxy_not_guarded_view:
  "ow \<noteq> [] \<and> rp \<noteq> [] \<and> (trim ow = [] \<or> trim rp = []) \<longrightarrow>
     map fst (sent (fst (structure_handler env (structure_get ow rp b) st))) \<noteq> [400]
     \<and> mcpClientPromise (snd (structure_handler env (structure_get ow rp b) st)) = Some (fst (getMcpClient st))
     \<and> (connect env (fst (getMcpClient st)) = None \<longrightarrow>
          invocations (snd (structure_handler env (structure_get ow rp b) st)) =
            invocations st @
              [\<lparr>toolName = ''read_wiki_structure'', arguments = [(''owner'', JStr ow), (''repo'', JStr rp)]\<rparr>])
     \<and> (q \<noteq> [] \<longrightarrow>
          map fst (sent (fst (ask_handler env (ask_request (ui\<lparr>owner := ow, repo := rp, question := q\<rparr>)) st)))
            \<noteq> [400]
          \<and> mcpClientPromise (snd (ask_handler env (ask_request (ui\<lparr>owner := ow, repo := rp, question := q\<rparr>)) st))
            = Some (fst (getMcpClient st))
          \<and> (connect env (fst (getMcpClient st)) = None \<longrightarrow>
               invocations (snd (ask_handler env (ask_request (ui\<lparr>owner := ow, repo := rp, question := q\<rparr>)) st)) =
                 invocations st @
                   [\<lparr>toolName = ''ask_question'',
                     arguments = [(''owner'', JStr ow), (''repo'', JStr rp), (''question'', JStr q)]\<rparr>]))
     \<and> snd (effect (ui\<lparr>owner := ow, repo := rp\<rparr>)) = []
     \<and> snd (ask (ui\<lparr>owner := ow, repo := rp\<rparr>)) = []"
proof (intro impI)
  assume h: "ow \<noteq> [] \<and> rp \<noteq> [] \<and> (trim ow = [] \<or> trim rp = [])"
  then have p: "\<not> structure_missing (structure_get ow rp b)" by (simp add: structure_get_present)
  have e: "structure_handler env (structure_get ow rp b) st =
      catch_clause ''structure error'' (call_tool env (structure_call (structure_get ow rp b)) res0 st)"
    by (simp add: structure_handler_def structure_try_present [OF p])
  have s: "map fst (sent (fst (structure_handler env (structure_get ow rp b) st))) \<noteq> [400]"
    using catch_call_tool_status [of "''structure error''" env "structure_call (structure_get ow rp b)" st]
    by (auto simp: e)
  have u: "snd (effect (ui\<lparr>owner := ow, repo := rp\<rparr>)) = []" "snd (ask (ui\<lparr>owner := ow, repo := rp\<rparr>)) = []"
    using h by (auto simp: effect_unfold ask_def canQuery_def)
  have a: "q \<noteq> [] \<longrightarrow>
          map fst (sent (fst (ask_handler env (ask_request (ui\<lparr>owner := ow, repo := rp, question := q\<rparr>)) st)))
            \<noteq> [400]
          \<and> mcpClientPromise (snd (ask_handler env (ask_request (ui\<lparr>owner := ow, repo := rp, question := q\<rparr>)) st))
            = Some (fst (getMcpClient st))
          \<and> (connect env (fst (getMcpClient st)) = None \<longrightarrow>
               invocations (snd (ask_handler env (ask_request (ui\<lparr>owner := ow, repo := rp, question := q\<rparr>)) st)) =
                 invocations st @
                   [\<lparr>toolName = ''ask_question'',
                     arguments = [(''owner'', JStr ow), (''repo'', JStr rp), (''question'', JStr q)]\<rparr>])"
  proof
    assume q: "q \<noteq> []"
    let ?r = "ask_request (ui\<lparr>owner := ow, repo := rp, question := q\<rparr>)"
    have pa: "\<not> ask_missing ?r" using h q by (simp add: ask_request_present)
    have ea: "ask_handler env ?r st = catch_clause ''ask error'' (call_tool env (ask_call ?r) res0 st)"
      by (simp add: ask_handler_def ask_try_present [OF ask_missing_not_nullish [OF pa] pa])
    have sa: "map fst (sent (fst (ask_handler env ?r st))) \<noteq> [400]"
      using catch_call_tool_status [of "''ask error''" env "ask_call ?r" st] by (auto simp: ea)
    show "map fst (sent (fst (ask_handler env ?r st))) \<noteq> [400]
          \<and> mcpClientPromise (snd (ask_handler env ?r st)) = Some (fst (getMcpClient st))
          \<and> (connect env (fst (getMcpClient st)) = None \<longrightarrow>
               invocations (snd (ask_handler env ?r st)) =
                 invocations st @
                   [\<lparr>toolName = ''ask_question'',
                     arguments = [(''owner'', JStr ow), (''repo'', JStr rp), (''question'', JStr q)]\<rparr>])"
      using sa by (simp add: ea catch_call_tool_promise catch_call_tool_invocations ask_request_call)
  qed
  show "map fst (sent (fst (structure_handler env (structure_get ow rp b) st))) \<noteq> [400]
     \<and> mcpClientPromise (snd (structure_handler env (structure_get ow rp b) st)) = Some (fst (getMcpClient st))
     \<and> (connect env (fst (getMcpClient st)) = None \<longrightarrow>
          invocations (snd (structure_handler env (structure_get ow rp b) st)) =
            invocations st @
              [\<lparr>toolName = ''read_wiki_structure'', arguments = [(''owner'', JStr ow), (''repo'', JStr rp)]\<rparr>])
     \<and> (q \<noteq> [] \<longrightarrow>
          map fst (sent (fst (ask_handler env (ask_request (ui\<lparr>owner := ow, repo := rp, question := q\<rparr>)) st)))
            \<noteq> [400]
          \<and> mcpClientPromise (snd (ask_handler env (ask_request (ui\<lparr>owner := ow, repo := rp, question := q\<rparr>)) st))
            = Some (fst (getMcpClient st))
          \<and> (connect env (fst (getMcpClient st)) = None \<longrightarrow>
               invocations (snd (ask_handler env (ask_request (ui\<lparr>owner := ow, repo := rp, question := q\<rparr>)) st)) =
                 invocations st @
                   [\<lparr>toolName = ''ask_question'',
                     arguments = [(''owner'', JStr ow), (''repo'', JStr rp), (''question'', JStr q)]\<rparr>]))
     \<and> snd (effect (ui\<lparr>owner := ow, repo := rp\<rparr>)) = []
     \<and> snd (ask (ui\<lparr>owner := ow, repo := rp\<rparr>)) = []"
    using s u a by (simp add: e catch_call_tool_promise catch_call_tool_invocations structure_get_call)
qed

theorem blank_identifier_passes_proxy_not_guarded_view_witness:
  "invocations (snd (structure_handler (env_resolving JNull) (structure_get '' '' ''react'' JUndefined) server_init)) =
     [\<lparr>toolName = ''read_wiki_structure'', arguments = [(''owner'', JStr '' ''), (''repo'', JStr ''react'')]\<rparr>]
   \<and> invocations (snd (ask_handler (env_resolving JNull)
        (ask_request (ui_init\<lparr>owner := '' '', repo := ''react'', question := ''why''\<rparr>)) server_init)) =
     [\<lparr>toolName = ''ask_question'',
       arguments = [(''owner'', JStr '' ''), (''repo'', JStr ''react''), (''question'', JStr ''why'')]\<rparr>]
   \<and> snd (effect (ui_init\<lparr>owner := '' '', repo := ''react''\<rparr>)) = []
   \<and> snd (ask (ui_init\<lparr>owner := '' '', repo := ''react''\<rparr>)) = []"
  using blank_identifier_passes_proxy_not_guarded_view [of "'' ''" "''react''" "env_resolving JNull" JUndefined
      server_init "''why''" ui_init]
  by (simp add: trim_examples env_resolving_def server_init_def getMcpClient_def)

end
